theory Spec2Isabelle
  imports Main
begin

section \<open>The contact-form handler of portfolio-infra/lambda/index.py\<close>

text \<open>
  The unit under verification is one Python module: \<^verbatim>\<open>get_source_ip(event)\<close> and
  \<^verbatim>\<open>lambda_handler(event, context)\<close>. The handler reads a request, derives the caller's
  origin address, validates three fields, asks the DynamoDB table two questions, writes
  one item, tries to send one mail and answers with a status code.

  Conventions of the embedding.
  \<^item> A Python \<^verbatim>\<open>str\<close> is a \<^typ>\<open>string\<close>: the list of its code points, each below 256
    (ASCII and Latin-1). \<^verbatim>\<open>str.strip\<close> and \<^verbatim>\<open>str.lower\<close> are written out for that range.
  \<^item> The event and the request body are JSON values. Floating-point numbers are left
    out: in this program a float is only ever tested for truth and for having string
    methods, where it behaves as an integer does.
  \<^item> Every \<^verbatim>\<open>raise\<close> is a value \<open>Inl e\<close> of type \<open>error + 'a\<close>.
  \<^item> A \<^verbatim>\<open>datetime\<close> is an \<^typ>\<open>int\<close>, the number of microseconds since a fixed instant.
    \<^verbatim>\<open>isoformat()\<close> is strictly increasing in that number (a fixed-width prefix down to
    the seconds, then nothing or six digits), so the string comparison DynamoDB makes
    on \<^verbatim>\<open>Timestamp\<close> is the comparison of the integers.
\<close>

subsection \<open>JSON values and the Python operations on them\<close>

datatype json =
    JNull
  | JBool bool
  | JInt int
  | JStr string
  | JArr "json list"
  | JObj "(string \<times> json) list"

datatype error =
    AttributeError
  | JSONDecodeError
  | UnicodeEncodeError
  | ClientError

text \<open>Sequencing of statements that may raise: the first exception ends the block.\<close>

definition and_then :: "error + 'a \<Rightarrow> ('a \<Rightarrow> error + 'b) \<Rightarrow> error + 'b" where
  "and_then m f = (case m of Inl e \<Rightarrow> Inl e | Inr x \<Rightarrow> f x)"

text \<open>Python's truth value of an object, as \<^verbatim>\<open>not x\<close>, \<^verbatim>\<open>x or y\<close> and \<^verbatim>\<open>if x\<close> use it.\<close>

fun truthy :: "json \<Rightarrow> bool" where
  "truthy JNull = False"
| "truthy (JBool b) = b"
| "truthy (JInt n) = (n \<noteq> 0)"
| "truthy (JStr s) = (s \<noteq> [])"
| "truthy (JArr xs) = (xs \<noteq> [])"
| "truthy (JObj kvs) = (kvs \<noteq> [])"

text \<open>
  \<^verbatim>\<open>d.get(k, default)\<close>: only a dict has the method, every other JSON value raises
  AttributeError. \<^verbatim>\<open>d.get(k)\<close> is \<^verbatim>\<open>d.get(k, None)\<close>.
\<close>

definition dict_get :: "json \<Rightarrow> string \<Rightarrow> json \<Rightarrow> error + json" where
  "dict_get d k dflt =
     (case d of
        JObj kvs \<Rightarrow> Inr (case map_of kvs k of Some v \<Rightarrow> v | None \<Rightarrow> dflt)
      | _ \<Rightarrow> Inl AttributeError)"

text \<open>\<^verbatim>\<open>str.isspace\<close> on one code point below 256.\<close>

definition py_isspace :: "char \<Rightarrow> bool" where
  "py_isspace c =
     (let n = of_char c :: nat
      in (9 \<le> n \<and> n \<le> 13) \<or> (28 \<le> n \<and> n \<le> 32) \<or> n = 133 \<or> n = 160)"

text \<open>\<^verbatim>\<open>s.strip()\<close>: leading and trailing whitespace removed.\<close>

definition py_strip :: "string \<Rightarrow> string" where
  "py_strip s = rev (dropWhile py_isspace (rev (dropWhile py_isspace s)))"

text \<open>\<^verbatim>\<open>s.lower()\<close>: A to Z and the Latin-1 capitals (192 to 222 without 215) move up by 32.\<close>

definition py_lower_char :: "char \<Rightarrow> char" where
  "py_lower_char c =
     (let n = of_char c :: nat
      in if (65 \<le> n \<and> n \<le> 90) \<or> (192 \<le> n \<and> n \<le> 222 \<and> n \<noteq> 215)
         then char_of (n + 32) else c)"

definition py_lower :: "string \<Rightarrow> string" where
  "py_lower s = map py_lower_char s"

text \<open>\<^verbatim>\<open>s.split(',')[0]\<close>: the text before the first comma (all of it when there is none).\<close>

definition split_comma_first :: "string \<Rightarrow> string" where
  "split_comma_first s = takeWhile (\<lambda>c. c \<noteq> CHR '','') s"

subsection \<open>get_source_ip\<close>

text \<open>
  Lines 16 to 35. Each \<^verbatim>\<open>.get\<close> is on a value that came out of the event, so each can
  raise; \<^verbatim>\<open>forwarded.split\<close> raises when the header is a non-empty list, a number or a
  mapping. The result is whatever object was found: a truthy \<^verbatim>\<open>sourceIp\<close> is returned
  as it is, string or not.
\<close>

definition forwarded_token :: "json \<Rightarrow> error + json" where
  "forwarded_token forwarded =
     (case forwarded of
        JStr s \<Rightarrow> Inr (JStr (py_strip (split_comma_first s)))
      | _ \<Rightarrow> Inl AttributeError)"

definition get_source_ip :: "json \<Rightarrow> error + json" where
  "get_source_ip event =
     and_then (dict_get event ''requestContext'' (JObj [])) (\<lambda>request_context.
     and_then (dict_get request_context ''http'' (JObj [])) (\<lambda>http_info.
     and_then (dict_get http_info ''sourceIp'' JNull) (\<lambda>ip0.
     and_then (if \<not> truthy ip0
               then and_then (dict_get request_context ''identity'' (JObj [])) (\<lambda>identity.
                    dict_get identity ''sourceIp'' JNull)
               else Inr ip0) (\<lambda>ip1.
     and_then (if \<not> truthy ip1
               then and_then (dict_get event ''headers'' (JObj [])) (\<lambda>headers.
                    and_then (dict_get headers ''x-forwarded-for'' JNull) (\<lambda>lower_case.
                    and_then (if truthy lower_case then Inr lower_case
                              else dict_get headers ''X-Forwarded-For'' JNull) (\<lambda>forwarded.
                    if truthy forwarded then forwarded_token forwarded else Inr ip1)))
               else Inr ip1) (\<lambda>ip2.
     Inr (if truthy ip2 then ip2 else JStr ''unknown''))))))"

subsection \<open>json.dumps\<close>

text \<open>
  \<^verbatim>\<open>json.dumps\<close> with its defaults: \<^verbatim>\<open>", "\<close> between members, \<^verbatim>\<open>": "\<close> after a key,
  and \<^verbatim>\<open>ensure_ascii\<close>, which writes every code point outside the printable ASCII
  range as a \<^verbatim>\<open>\u\<close> escape of four lower-case hexadecimal digits.
\<close>

definition hex_digit :: "nat \<Rightarrow> char" where
  "hex_digit n = (if n < 10 then char_of (48 + n) else char_of (87 + n))"

definition escape_char :: "char \<Rightarrow> string" where
  "escape_char c =
     (let n = of_char c :: nat
      in if n = 34 then [CHR 0x5C, CHR 0x22]
         else if n = 92 then [CHR 0x5C, CHR 0x5C]
         else if n = 10 then [CHR 0x5C, CHR ''n'']
         else if n = 13 then [CHR 0x5C, CHR ''r'']
         else if n = 9 then [CHR 0x5C, CHR ''t'']
         else if n = 12 then [CHR 0x5C, CHR ''f'']
         else if n = 8 then [CHR 0x5C, CHR ''b'']
         else if 32 \<le> n \<and> n \<le> 126 then [c]
         else [CHR 0x5C, CHR ''u'', CHR ''0'', CHR ''0'', hex_digit (n div 16), hex_digit (n mod 16)])"

definition dumps_str :: "string \<Rightarrow> string" where
  "dumps_str s = [CHR 0x22] @ concat (map escape_char s) @ [CHR 0x22]"

function dumps_nat :: "nat \<Rightarrow> string" where
  "dumps_nat n =
     (if n < 10 then [char_of (48 + n)]
      else dumps_nat (n div 10) @ [char_of (48 + n mod 10)])"
  by pat_completeness auto
termination
  by (relation "measure id") auto

definition dumps_int :: "int \<Rightarrow> string" where
  "dumps_int i = (if i < 0 then CHR ''-'' # dumps_nat (nat (- i)) else dumps_nat (nat i))"

fun join_comma :: "string list \<Rightarrow> string" where
  "join_comma [] = []"
| "join_comma [x] = x"
| "join_comma (x # y # ys) = x @ '', '' @ join_comma (y # ys)"

fun json_dumps :: "json \<Rightarrow> string"
  and dumps_elements :: "json list \<Rightarrow> string list"
  and dumps_members :: "(string \<times> json) list \<Rightarrow> string list" where
  "json_dumps JNull = ''null''"
| "json_dumps (JBool b) = (if b then ''true'' else ''false'')"
| "json_dumps (JInt i) = dumps_int i"
| "json_dumps (JStr s) = dumps_str s"
| "json_dumps (JArr xs) = ''['' @ join_comma (dumps_elements xs) @ '']''"
| "json_dumps (JObj kvs) = ''{'' @ join_comma (dumps_members kvs) @ ''}''"
| "dumps_elements [] = []"
| "dumps_elements (x # xs) = json_dumps x # dumps_elements xs"
| "dumps_members [] = []"
| "dumps_members ((k, v) # kvs) = (dumps_str k @ '': '' @ json_dumps v) # dumps_members kvs"

subsection \<open>The table, the mail service and the clock\<close>

text \<open>
  An item of the table \<^verbatim>\<open>PortfolioMessages\<close> has the seven attributes that line 111
  writes. \<^verbatim>\<open>SourceIP\<close> holds whatever \<^verbatim>\<open>get_source_ip\<close> returned, the others are strings
  and the timestamp.
\<close>

record item =
  MessageId :: string
  Timestamp :: int
  Name :: string
  Email :: string
  Message :: string
  ContentHash :: string
  SourceIP :: json

text \<open>
  What one invocation draws from outside the module: the two library functions whose
  code is not in the repository, the three readings of the clock (lines 58, 90 and
  113), the identifier drawn at line 112, and whether each call to a service raises.
  \<^verbatim>\<open>json_loads s = None\<close> stands for \<^verbatim>\<open>json.loads(s)\<close> raising.
  \<^verbatim>\<open>md5_hexdigest s\<close> stands for \<^verbatim>\<open>hashlib.md5(s.encode()).hexdigest()\<close>, and it is
  \<^verbatim>\<open>None\<close> when \<^verbatim>\<open>s.encode()\<close> raises UnicodeEncodeError. That happens on a text that
  holds a lone surrogate, which \<^verbatim>\<open>json.loads\<close> yields from an escape such as
  \<^verbatim>\<open>\ud83d\<close>; the strings here have no surrogates, so the surrounding decides which
  texts those are.
\<close>

record env =
  json_loads :: "string \<Rightarrow> json option"
  md5_hexdigest :: "string \<Rightarrow> string option"
  utcnow_58 :: int
  utcnow_90 :: int
  utcnow_113 :: int
  uuid4 :: string
  query_ip_raises :: bool
  query_hash_raises :: bool
  put_item_raises :: bool
  send_email_raises :: bool

text \<open>The calls made to the two services, in order, and the content of the table.\<close>

datatype call =
    Query_SourceIPIndex json int
  | Query_ContentHashIndex string int
  | Put_Item item
  | Send_Email string string string

record world =
  table :: "item list"
  calls :: "call list"

definition one_hour :: int where
  "one_hour = 3600000000"

definition five_minutes :: int where
  "five_minutes = 300000000"

text \<open>
  Modelled from the spec: the table and its two indexes are declared outside the
  module (the store is an external collaborator). A query returns all items whose key
  attribute equals the given value and whose timestamp is strictly after the given
  time; \<^verbatim>\<open>put_item\<close> adds the item. A call that raises changes nothing.
\<close>

definition query_SourceIPIndex :: "item list \<Rightarrow> json \<Rightarrow> int \<Rightarrow> item list" where
  "query_SourceIPIndex tbl ip time = filter (\<lambda>it. SourceIP it = ip \<and> time < Timestamp it) tbl"

definition query_ContentHashIndex :: "item list \<Rightarrow> string \<Rightarrow> int \<Rightarrow> item list" where
  "query_ContentHashIndex tbl h time =
     filter (\<lambda>it. ContentHash it = h \<and> time < Timestamp it) tbl"

definition table_query_ip :: "env \<Rightarrow> json \<Rightarrow> int \<Rightarrow> world \<Rightarrow> (error + item list) \<times> world" where
  "table_query_ip e ip time w =
     (let w' = w\<lparr>calls := calls w @ [Query_SourceIPIndex ip time]\<rparr>
      in if query_ip_raises e then (Inl ClientError, w')
         else (Inr (query_SourceIPIndex (table w) ip time), w'))"

definition table_query_hash :: "env \<Rightarrow> string \<Rightarrow> int \<Rightarrow> world \<Rightarrow> (error + item list) \<times> world" where
  "table_query_hash e h time w =
     (let w' = w\<lparr>calls := calls w @ [Query_ContentHashIndex h time]\<rparr>
      in if query_hash_raises e then (Inl ClientError, w')
         else (Inr (query_ContentHashIndex (table w) h time), w'))"

definition table_put_item :: "env \<Rightarrow> item \<Rightarrow> world \<Rightarrow> (error + unit) \<times> world" where
  "table_put_item e it w =
     (let w' = w\<lparr>calls := calls w @ [Put_Item it]\<rparr>
      in if put_item_raises e then (Inl ClientError, w')
         else (Inr (), w'\<lparr>table := table w @ [it]\<rparr>))"

definition SENDER_EMAIL :: string where
  "SENDER_EMAIL = ''rempisivan@gmail.com''"

definition MAX_SUBMISSIONS_PER_IP :: nat where
  "MAX_SUBMISSIONS_PER_IP = 10"

definition MAX_SUBMISSIONS_PER_EMAIL :: nat where
  "MAX_SUBMISSIONS_PER_EMAIL = 5"

text \<open>
  Lines 122 to 141: the mail goes from the sender to the sender; an exception of the
  call is caught where it is made and only clears \<^verbatim>\<open>email_sent\<close>.
\<close>

definition mail_subject :: "string \<Rightarrow> string" where
  "mail_subject name = ''New Portfolio Contact: '' @ name"

definition mail_text :: "string \<Rightarrow> string \<Rightarrow> string \<Rightarrow> string" where
  "mail_text name email message =
     ''You have a new message from your portfolio:'' @ [CHR 0x0A, CHR 0x0A]
     @ ''Name: '' @ name @ [CHR 0x0A]
     @ ''Email: '' @ email @ [CHR 0x0A]
     @ ''Message: '' @ message"

definition ses_send_email :: "env \<Rightarrow> string \<Rightarrow> string \<Rightarrow> string \<Rightarrow> world \<Rightarrow> bool \<times> world" where
  "ses_send_email e name email message w =
     (\<not> send_email_raises e,
      w\<lparr>calls := calls w @ [Send_Email SENDER_EMAIL (mail_subject name)
                                        (mail_text name email message)]\<rparr>)"

subsection \<open>Responses\<close>

record response =
  statusCode :: int
  headers :: "(string \<times> string) list"
  body :: string

definition cors_headers :: "(string \<times> string) list" where
  "cors_headers =
     [(''Content-Type'', ''application/json''), (''Access-Control-Allow-Origin'', ''*'')]"

definition error_response :: "int \<Rightarrow> string \<Rightarrow> response" where
  "error_response code msg =
     \<lparr>statusCode = code, headers = cors_headers,
      body = json_dumps (JObj [(''status'', JStr ''error''), (''message'', JStr msg)])\<rparr>"

definition success_response :: "bool \<Rightarrow> response" where
  "success_response email_sent =
     \<lparr>statusCode = 200,
      headers = [(''Content-Type'', ''application/json''),
                 (''Access-Control-Allow-Origin'', ''*''),
                 (''Access-Control-Allow-Methods'', ''POST, OPTIONS''),
                 (''Access-Control-Allow-Headers'', ''Content-Type'')],
      body = json_dumps (JObj [(''status'', JStr ''success''),
               (''message'', JStr (if \<not> email_sent then ''Message received!''
                                   else ''Message sent!''))])\<rparr>"

subsection \<open>lambda_handler\<close>

text \<open>
  Lines 40 to 43: a body that is a string is decoded, any other body is taken as it
  is, and an event without a body gives the empty mapping.
\<close>

definition parse_body :: "env \<Rightarrow> json \<Rightarrow> error + json" where
  "parse_body e event =
     and_then (dict_get event ''body'' JNull) (\<lambda>b.
       case b of
         JStr s \<Rightarrow> (case json_loads e s of None \<Rightarrow> Inl JSONDecodeError | Some v \<Rightarrow> Inr v)
       | _ \<Rightarrow> dict_get event ''body'' (JObj []))"

text \<open>\<^verbatim>\<open>body.get(k, '').strip()\<close>: the value must be a string to have the method.\<close>

definition get_stripped :: "json \<Rightarrow> string \<Rightarrow> error + string" where
  "get_stripped b k =
     and_then (dict_get b k (JStr [])) (\<lambda>v.
       case v of JStr s \<Rightarrow> Inr (py_strip s) | _ \<Rightarrow> Inl AttributeError)"

text \<open>Lines 40 to 48: everything the handler computes before its first test.\<close>

definition read_request :: "env \<Rightarrow> json \<Rightarrow> error + (string \<times> string \<times> string \<times> json)" where
  "read_request e event =
     and_then (parse_body e event) (\<lambda>b.
     and_then (get_stripped b ''name'') (\<lambda>name.
     and_then (get_stripped b ''email'') (\<lambda>email_stripped.
     and_then (get_stripped b ''message'') (\<lambda>message.
     and_then (get_source_ip event) (\<lambda>source_ip.
     Inr (name, py_lower email_stripped, message, source_ip))))))"

text \<open>Line 80: the items of the first query whose stored address, lower-cased, is the sender's.\<close>

definition email_count :: "item list \<Rightarrow> string \<Rightarrow> nat" where
  "email_count ip_items email = length (filter (\<lambda>it. py_lower (Email it) = email) ip_items)"

text \<open>
  Line 89: the digest of the address followed, with nothing between, by the lower-cased
  text; the encoding of that text is what can raise.
\<close>

definition hash_text :: "string \<Rightarrow> string \<Rightarrow> string" where
  "hash_text email message = email @ py_lower message"

definition content_hash :: "env \<Rightarrow> string \<Rightarrow> string \<Rightarrow> error + string" where
  "content_hash e email message =
     (case md5_hexdigest e (hash_text email message) of
        None \<Rightarrow> Inl UnicodeEncodeError
      | Some digest \<Rightarrow> Inr digest)"

text \<open>Lines 111 to 119: the item that is written, with the digest computed at line 89.\<close>

definition new_item :: "env \<Rightarrow> string \<Rightarrow> string \<Rightarrow> string \<Rightarrow> string \<Rightarrow> json \<Rightarrow> item" where
  "new_item e name email message digest source_ip =
     \<lparr>MessageId = uuid4 e, Timestamp = utcnow_113 e, Name = name, Email = email,
      Message = message, ContentHash = digest, SourceIP = source_ip\<rparr>"

text \<open>Lines 50 to 152, from the validation to the answer, for a request that was read.\<close>

definition process :: "env \<Rightarrow> string \<Rightarrow> string \<Rightarrow> string \<Rightarrow> json \<Rightarrow> world
    \<Rightarrow> (error + response) \<times> world" where
  "process e name email message source_ip w =
     (if name = [] \<or> email = [] \<or> message = []
      then (Inr (error_response 400 ''Missing required fields''), w)
      else
        (case table_query_ip e source_ip (utcnow_58 e - one_hour) w of
           (Inl err, w1) \<Rightarrow> (Inl err, w1)
         | (Inr ip_items, w1) \<Rightarrow>
            (if MAX_SUBMISSIONS_PER_IP \<le> length ip_items
             then (Inr (error_response 429 ''Too many submissions. Please try again later.''), w1)
             else if MAX_SUBMISSIONS_PER_EMAIL \<le> email_count ip_items email
             then (Inr (error_response 429
                     ''Too many submissions from this email. Please try again later.''), w1)
             else
               (case content_hash e email message of
                  Inl err \<Rightarrow> (Inl err, w1)
                | Inr digest \<Rightarrow>
                   (case table_query_hash e digest (utcnow_90 e - five_minutes) w1 of
                      (Inl err, w2) \<Rightarrow> (Inl err, w2)
                    | (Inr dup_items, w2) \<Rightarrow>
                       (if dup_items \<noteq> []
                        then (Inr (error_response 429
                                ''Duplicate submission detected. Please wait a few minutes.''),
                              w2)
                        else
                          (case table_put_item e
                                  (new_item e name email message digest source_ip) w2 of
                             (Inl err, w3) \<Rightarrow> (Inl err, w3)
                           | (Inr u, w3) \<Rightarrow>
                              (case ses_send_email e name email message w3 of
                                 (email_sent, w4) \<Rightarrow>
                                   (Inr (success_response email_sent), w4)))))))))"

text \<open>The body of the \<^verbatim>\<open>try\<close>, lines 39 to 152.\<close>

definition lambda_handler_try :: "env \<Rightarrow> json \<Rightarrow> world \<Rightarrow> (error + response) \<times> world" where
  "lambda_handler_try e event w =
     (case read_request e event of
        Inl err \<Rightarrow> (Inl err, w)
      | Inr (name, email, message, source_ip) \<Rightarrow> process e name email message source_ip w)"

text \<open>
  The whole function: \<^verbatim>\<open>except Exception\<close> at line 156 answers every exception of the
  body with the same response. The \<^verbatim>\<open>context\<close> argument is never read.
\<close>

definition lambda_handler :: "env \<Rightarrow> json \<Rightarrow> world \<Rightarrow> response \<times> world" where
  "lambda_handler e event w =
     (case lambda_handler_try e event w of
        (Inl err, w') \<Rightarrow> (error_response 500 ''Internal server error'', w')
      | (Inr r, w') \<Rightarrow> (r, w'))"

subsection \<open>The origin address as the specification words it\<close>

text \<open>
  The specification derives the origin from a list of sources tried in priority order,
  the first that yields an address winning, and \<^verbatim>\<open>"unknown"\<close> when none does. The
  definitions below follow those words and not the code; they are what
  \<^const>\<open>get_source_ip\<close> is compared with. An entry that is not there reads as \<^verbatim>\<open>None\<close>,
  and a source yields an address when what it holds is truthy.
\<close>

definition field :: "json \<Rightarrow> string \<Rightarrow> json" where
  "field d k =
     (case d of
        JObj kvs \<Rightarrow> (case map_of kvs k of Some v \<Rightarrow> v | None \<Rightarrow> JNull)
      | _ \<Rightarrow> JNull)"

definition first_token :: "json \<Rightarrow> json" where
  "first_token h = (case h of JStr s \<Rightarrow> JStr (py_strip (split_comma_first s)) | _ \<Rightarrow> JNull)"

definition first_address :: "json list \<Rightarrow> json" where
  "first_address sources = (case find truthy sources of Some v \<Rightarrow> v | None \<Rightarrow> JStr ''unknown'')"

text \<open>The three sources of the specification, with the header under its lower-case name.\<close>

definition spec_sources :: "json \<Rightarrow> json list" where
  "spec_sources event =
     [field (field (field event ''requestContext'') ''http'') ''sourceIp'',
      field (field (field event ''requestContext'') ''identity'') ''sourceIp'',
      first_token (field (field event ''headers'') ''x-forwarded-for'')]"

definition spec_source_ip :: "json \<Rightarrow> json" where
  "spec_source_ip event = first_address (spec_sources event)"

text \<open>
  The same list with the third source read under either spelling of the header, the
  lower-case one first and \<^verbatim>\<open>X-Forwarded-For\<close> when that is absent or empty.
\<close>

definition forwarded_header :: "json \<Rightarrow> json" where
  "forwarded_header event =
     (if truthy (field (field event ''headers'') ''x-forwarded-for'')
      then field (field event ''headers'') ''x-forwarded-for''
      else field (field event ''headers'') ''X-Forwarded-For'')"

definition both_spellings_sources :: "json \<Rightarrow> json list" where
  "both_spellings_sources event =
     [field (field (field event ''requestContext'') ''http'') ''sourceIp'',
      field (field (field event ''requestContext'') ''identity'') ''sourceIp'',
      first_token (forwarded_header event)]"

definition both_spellings_source_ip :: "json \<Rightarrow> json" where
  "both_spellings_source_ip event = first_address (both_spellings_sources event)"

text \<open>
  The events on which no \<^verbatim>\<open>.get\<close> and no \<^verbatim>\<open>.split\<close> can raise: the event is a mapping,
  \<^verbatim>\<open>requestContext\<close>, its \<^verbatim>\<open>http\<close> and \<^verbatim>\<open>identity\<close> entries and \<^verbatim>\<open>headers\<close> are mappings
  where present, and each of the two headers is absent, falsy or a string.
\<close>

fun is_mapping :: "json \<Rightarrow> bool" where
  "is_mapping (JObj kvs) = True"
| "is_mapping v = False"

fun isinstance_str :: "json \<Rightarrow> bool" where
  "isinstance_str (JStr s) = True"
| "isinstance_str v = False"

definition mapping_or_absent :: "json \<Rightarrow> string \<Rightarrow> bool" where
  "mapping_or_absent d k =
     (case d of
        JObj kvs \<Rightarrow> (case map_of kvs k of Some v \<Rightarrow> is_mapping v | None \<Rightarrow> True)
      | _ \<Rightarrow> True)"

definition string_or_falsy :: "json \<Rightarrow> bool" where
  "string_or_falsy v = (isinstance_str v \<or> \<not> truthy v)"

definition well_formed_event :: "json \<Rightarrow> bool" where
  "well_formed_event event =
     (is_mapping event
      \<and> mapping_or_absent event ''requestContext''
      \<and> mapping_or_absent (field event ''requestContext'') ''http''
      \<and> mapping_or_absent (field event ''requestContext'') ''identity''
      \<and> mapping_or_absent event ''headers''
      \<and> string_or_falsy (field (field event ''headers'') ''x-forwarded-for'')
      \<and> string_or_falsy (field (field event ''headers'') ''X-Forwarded-For''))"

subsection \<open>Concrete requests, tables and surroundings\<close>

text \<open>
  A surrounding in which every service answers and every text encodes; the digest is
  a stand-in (the text itself), since the properties below hold for any digest function.
\<close>

definition demo_env :: env where
  "demo_env =
     \<lparr>json_loads = (\<lambda>s. if s = ''{}'' then Some (JObj []) else None),
      md5_hexdigest = (\<lambda>s. Some s),
      utcnow_58 = 7200000000, utcnow_90 = 7200000001, utcnow_113 = 7200000002,
      uuid4 = ''0f8fad5b-d9cb-469f-a165-70867728950e'',
      query_ip_raises = False, query_hash_raises = False,
      put_item_raises = False, send_email_raises = False\<rparr>"

text \<open>A request with a decoded body, arriving from the given address.\<close>

definition demo_event :: "string \<Rightarrow> string \<Rightarrow> string \<Rightarrow> string \<Rightarrow> json" where
  "demo_event name email message ip =
     JObj [(''body'', JObj [(''name'', JStr name), (''email'', JStr email),
                            (''message'', JStr message)]),
           (''requestContext'', JObj [(''http'', JObj [(''sourceIp'', JStr ip)])])]"

text \<open>An item as the handler would have written it one hundred seconds before \<^const>\<open>demo_env\<close>.\<close>

definition demo_item :: "string \<Rightarrow> string \<Rightarrow> string \<Rightarrow> item" where
  "demo_item email message ip =
     \<lparr>MessageId = ''7c9e6679-7425-40de-944b-e07fc1f90ae7'', Timestamp = 7100000000,
      Name = ''Ann'', Email = email, Message = message,
      ContentHash = email @ py_lower message, SourceIP = JStr ip\<rparr>"

definition empty_world :: world where
  "empty_world = \<lparr>table = [], calls = []\<rparr>"

definition busy_world :: world where
  "busy_world =
     \<lparr>table = replicate 10 (demo_item ''ann@example.org'' ''Hello'' ''203.0.113.7''),
      calls = []\<rparr>"



text \<open>Three events for the origin address: a header under its capitalised name only, a
  \<^verbatim>\<open>headers\<close> entry that is \<^verbatim>\<open>null\<close>, and a forwarded chain behind two empty sources.\<close>

definition capital_header_event :: json where
  "capital_header_event =
     JObj [(''headers'', JObj [(''X-Forwarded-For'', JStr ''198.51.100.4, 10.0.0.1'')])]"

definition null_headers_event :: json where
  "null_headers_event = JObj [(''headers'', JNull)]"

definition forwarded_event :: json where
  "forwarded_event =
     JObj [(''requestContext'', JObj [(''http'', JObj []),
                                      (''identity'', JObj [(''sourceIp'', JStr [])])]),
           (''headers'', JObj [(''x-forwarded-for'', JStr '' 198.51.100.4 , 10.0.0.1'')])]"

text \<open>Three more requests: a numeric email beside a missing name, a body that is not
  JSON, and a name bound to \<^verbatim>\<open>null\<close>.\<close>

definition numeric_email_event :: json where
  "numeric_email_event =
     JObj [(''body'', JObj [(''email'', JInt 5), (''message'', JStr ''hi'')]),
           (''requestContext'', JObj [(''http'', JObj [(''sourceIp'', JStr ''203.0.113.7'')])])]"

definition garbled_event :: json where
  "garbled_event = JObj [(''body'', JStr ''{name: Ann'')]"

definition null_name_event :: json where
  "null_name_event =
     JObj [(''body'', JObj [(''name'', JNull), (''email'', JStr ''ann@example.org''),
                            (''message'', JStr ''hi'')])]"

text \<open>A second surrounding one hundred seconds after \<^const>\<open>demo_env\<close>, and a table with four
  different messages of one sender.\<close>

definition later_env :: env where
  "later_env = demo_env\<lparr>utcnow_58 := 7300000000, utcnow_90 := 7300000001,
                        utcnow_113 := 7300000002,
                        uuid4 := ''9a3cbb1e-5d0f-4c62-8f51-2f6c1f0d7b11''\<rparr>"

definition four_world :: world where
  "four_world =
     \<lparr>table = map (\<lambda>m. demo_item ''ann@example.org'' m ''203.0.113.7'')
                [''one'', ''two'', ''three'', ''four''],
      calls = []\<rparr>"

text \<open>
  A request whose body arrives as JSON text, a surrounding whose decoder knows that
  text, and a table that already holds two items with different identifiers, one of
  them from the same sender and address as the request.
\<close>

definition request_members :: "(string \<times> json) list" where
  "request_members =
     [(''name'', JStr '' Ann ''), (''email'', JStr '' Ann@Example.ORG''),
      (''message'', JStr ''Hello there '')]"

definition request_text :: string where
  "request_text = json_dumps (JObj request_members)"

definition decoding_env :: env where
  "decoding_env =
     demo_env\<lparr>json_loads :=
       (\<lambda>s. if s = request_text then Some (JObj request_members) else None)\<rparr>"

definition string_body_event :: json where
  "string_body_event =
     JObj [(''body'', JStr request_text),
           (''requestContext'', JObj [(''http'', JObj [(''sourceIp'', JStr ''203.0.113.7'')])])]"

definition stored_world :: world where
  "stored_world =
     \<lparr>table =
        [demo_item ''bob@example.org'' ''Hi'' ''198.51.100.4'',
         (demo_item ''ann@example.org'' ''Good day'' ''203.0.113.7'')
           \<lparr>MessageId := ''16fd2706-8baf-433b-82eb-8c7fada847da''\<rparr>],
      calls = []\<rparr>"

section \<open>Properties\<close>

subsection \<open>The origin address\<close>

lemma and_then_Inr: "and_then (Inr x) f = f x"
  by (simp add: and_then_def)

lemma dict_get_mapping:
  "is_mapping d \<Longrightarrow> dict_get d k JNull = Inr (field d k)"
  by (cases d) (simp_all add: dict_get_def field_def)

text \<open>
  One step into a nested mapping: \<^verbatim>\<open>d.get(k, {})\<close> returns a mapping that answers every
  later lookup as the entry itself does, the empty mapping standing in for an absent entry.
\<close>

lemma and_then_entry:
  assumes "is_mapping d" and "mapping_or_absent d k"
    and "\<And>m. is_mapping m \<Longrightarrow> (\<And>j. field m j = field (field d k) j) \<Longrightarrow>
           (\<And>j. mapping_or_absent m j = mapping_or_absent (field d k) j) \<Longrightarrow> f m = R"
  shows "and_then (dict_get d k (JObj [])) f = R"
proof (cases d)
  case (JObj kvs)
  show ?thesis
  proof (cases "map_of kvs k")
    case None
    have "f (JObj []) = R"
      using JObj None by (intro assms(3)) (simp_all add: field_def mapping_or_absent_def)
    then show ?thesis
      using JObj None by (simp add: and_then_def dict_get_def)
  next
    case (Some v)
    have "f v = R"
      using JObj Some assms(2) by (intro assms(3)) (simp_all add: field_def mapping_or_absent_def)
    then show ?thesis
      using JObj Some by (simp add: and_then_def dict_get_def)
  qed
qed (use assms(1) in simp_all)

lemma forwarded_token_string:
  "string_or_falsy v \<Longrightarrow> truthy v \<Longrightarrow> forwarded_token v = Inr (first_token v)"
  by (cases v) (simp_all add: string_or_falsy_def forwarded_token_def first_token_def)

lemma first_token_falsy: "\<not> truthy v \<Longrightarrow> \<not> truthy (first_token v)"
  by (cases v) (simp_all add: first_token_def split_comma_first_def py_strip_def)

lemma headers_block:
  assumes "is_mapping event" and "mapping_or_absent event ''headers''"
    and "string_or_falsy (field (field event ''headers'') ''x-forwarded-for'')"
    and "string_or_falsy (field (field event ''headers'') ''X-Forwarded-For'')"
  shows "and_then (dict_get event ''headers'' (JObj [])) (\<lambda>headers.
           and_then (dict_get headers ''x-forwarded-for'' JNull) (\<lambda>lower_case.
           and_then (if truthy lower_case then Inr lower_case
                     else dict_get headers ''X-Forwarded-For'' JNull) (\<lambda>forwarded.
           if truthy forwarded then forwarded_token forwarded else Inr ip1)))
         = Inr (if truthy (forwarded_header event) then first_token (forwarded_header event)
                else ip1)"
  apply (rule and_then_entry [OF assms(1,2)])
  subgoal premises p for hm
    using assms(3,4)
    by (simp add: dict_get_mapping [OF p(1)] p(2) and_then_Inr forwarded_header_def
        forwarded_token_string)
  done

lemma identity_block:
  assumes "is_mapping rcm" and "mapping_or_absent rcm ''identity''"
  shows "and_then (dict_get rcm ''identity'' (JObj [])) (\<lambda>identity.
           dict_get identity ''sourceIp'' JNull)
         = Inr (field (field rcm ''identity'') ''sourceIp'')"
  apply (rule and_then_entry [OF assms])
  subgoal premises p for im
    by (simp add: dict_get_mapping [OF p(1)] p(2))
  done

text \<open>
  Claim C8, as amended. On every event whose \<^verbatim>\<open>requestContext\<close>, \<^verbatim>\<open>http\<close>, \<^verbatim>\<open>identity\<close> and
  \<^verbatim>\<open>headers\<close> entries are mappings where present and whose forwarded-for headers are
  strings or falsy, \<^verbatim>\<open>get_source_ip\<close> returns without raising, and what it returns is the
  first truthy value among: the \<^verbatim>\<open>sourceIp\<close> of the HTTP context; the \<^verbatim>\<open>sourceIp\<close> of the
  identity; the trimmed first comma-separated token of the \<^verbatim>\<open>x-forwarded-for\<close> header, or
  of the \<^verbatim>\<open>X-Forwarded-For\<close> header when the lower-case one is absent or empty; and it is
  the string \<^verbatim>\<open>unknown\<close> when none of them is truthy.
\<close>

theorem C8_origin_priority:
  assumes "well_formed_event event"
  shows "get_source_ip event = Inr (both_spellings_source_ip event)"
proof -
  from assms have ev: "is_mapping event"
    and rc: "mapping_or_absent event ''requestContext''"
    and ht: "mapping_or_absent (field event ''requestContext'') ''http''"
    and idn: "mapping_or_absent (field event ''requestContext'') ''identity''"
    and hd: "mapping_or_absent event ''headers''"
    and lo: "string_or_falsy (field (field event ''headers'') ''x-forwarded-for'')"
    and up: "string_or_falsy (field (field event ''headers'') ''X-Forwarded-For'')"
    by (simp_all add: well_formed_event_def)
  note hb = headers_block [OF ev hd lo up]
  show ?thesis
    unfolding get_source_ip_def
    apply (rule and_then_entry [OF ev rc])
    subgoal premises p for rcm
      apply (rule and_then_entry [OF p(1)])
       apply (simp add: p(3) ht)
      subgoal premises q for hm
        using first_token_falsy [of "forwarded_header event"]
        by (simp add: dict_get_mapping [OF q(1)] q(2) p(2) and_then_Inr hb
            identity_block [OF p(1)] p(3) idn
            both_spellings_source_ip_def both_spellings_sources_def first_address_def)
      done
    done
qed

text \<open>
  The amended statement at \<^const>\<open>forwarded_event\<close>: the HTTP context has no address, the
  identity has an empty one, and the header's first token, trimmed, is the origin.
\<close>

theorem C8_witness:
  "well_formed_event forwarded_event
   \<and> get_source_ip forwarded_event = Inr (both_spellings_source_ip forwarded_event)
   \<and> both_spellings_source_ip forwarded_event = JStr ''198.51.100.4''"
proof -
  have wf: "well_formed_event forwarded_event"
    by code_simp
  have v: "both_spellings_source_ip forwarded_event = JStr ''198.51.100.4''"
    by code_simp
  show ?thesis
    using wf v C8_origin_priority [OF wf] by simp
qed

text \<open>
  The claim as worded fails twice. With the three sources of the specification, an
  event that carries only \<^verbatim>\<open>X-Forwarded-For\<close> has the origin \<^verbatim>\<open>unknown\<close>, and the code
  returns the header's first token. And not every event has an origin: with
  \<^verbatim>\<open>headers\<close> bound to \<^verbatim>\<open>null\<close> the function raises.
\<close>

theorem C8_counterexample:
  "spec_source_ip capital_header_event = JStr ''unknown''
   \<and> get_source_ip capital_header_event = Inr (JStr ''198.51.100.4'')
   \<and> get_source_ip capital_header_event \<noteq> Inr (spec_source_ip capital_header_event)
   \<and> get_source_ip null_headers_event = Inl AttributeError"
  by code_simp

subsection \<open>The gates of the handler\<close>

lemma handler_read:
  "read_request e event = Inr (name, email, message, source_ip) \<Longrightarrow>
   lambda_handler e event w =
     (case process e name email message source_ip w of
        (Inl err, w') \<Rightarrow> (error_response 500 ''Internal server error'', w')
      | (Inr r, w') \<Rightarrow> (r, w'))"
  by (simp add: lambda_handler_def lambda_handler_try_def)

lemma handler_unread:
  "read_request e event = Inl err \<Longrightarrow>
   lambda_handler e event w = (error_response 500 ''Internal server error'', w)"
  by (simp add: lambda_handler_def lambda_handler_try_def)

lemma process_missing:
  "name = [] \<or> email = [] \<or> message = [] \<Longrightarrow>
   process e name email message source_ip w =
     (Inr (error_response 400 ''Missing required fields''), w)"
  by (simp add: process_def)

lemma process_ip_limit:
  "name \<noteq> [] \<Longrightarrow> email \<noteq> [] \<Longrightarrow> message \<noteq> [] \<Longrightarrow> \<not> query_ip_raises e \<Longrightarrow>
   10 \<le> length (query_SourceIPIndex (table w) source_ip (utcnow_58 e - one_hour)) \<Longrightarrow>
   process e name email message source_ip w =
     (Inr (error_response 429 ''Too many submissions. Please try again later.''),
      w\<lparr>calls := calls w @ [Query_SourceIPIndex source_ip (utcnow_58 e - one_hour)]\<rparr>)"
  by (simp add: process_def table_query_ip_def MAX_SUBMISSIONS_PER_IP_def)


lemma process_past_limits:
  "name \<noteq> [] \<Longrightarrow> email \<noteq> [] \<Longrightarrow> message \<noteq> [] \<Longrightarrow> \<not> query_ip_raises e \<Longrightarrow>
   length (query_SourceIPIndex (table w) source_ip (utcnow_58 e - one_hour)) < 10 \<Longrightarrow>
   email_count (query_SourceIPIndex (table w) source_ip (utcnow_58 e - one_hour)) email < 5 \<Longrightarrow>
   process e name email message source_ip w =
     (case content_hash e email message of
        Inl err \<Rightarrow>
          (Inl err,
           w\<lparr>calls := calls w @ [Query_SourceIPIndex source_ip (utcnow_58 e - one_hour)]\<rparr>)
      | Inr digest \<Rightarrow>
         (case table_query_hash e digest (utcnow_90 e - five_minutes)
                 (w\<lparr>calls := calls w @
                      [Query_SourceIPIndex source_ip (utcnow_58 e - one_hour)]\<rparr>) of
            (Inl err, w2) \<Rightarrow> (Inl err, w2)
          | (Inr dup_items, w2) \<Rightarrow>
              (if dup_items \<noteq> []
               then (Inr (error_response 429
                       ''Duplicate submission detected. Please wait a few minutes.''), w2)
               else
                 (case table_put_item e (new_item e name email message digest source_ip) w2 of
                    (Inl err, w3) \<Rightarrow> (Inl err, w3)
                  | (Inr u, w3) \<Rightarrow>
                     (case ses_send_email e name email message w3 of
                        (email_sent, w4) \<Rightarrow> (Inr (success_response email_sent), w4))))))"
  by (simp add: process_def table_query_ip_def MAX_SUBMISSIONS_PER_IP_def
      MAX_SUBMISSIONS_PER_EMAIL_def)

lemma process_encode_fault:
  "name \<noteq> [] \<Longrightarrow> email \<noteq> [] \<Longrightarrow> message \<noteq> [] \<Longrightarrow> \<not> query_ip_raises e \<Longrightarrow>
   length (query_SourceIPIndex (table w) source_ip (utcnow_58 e - one_hour)) < 10 \<Longrightarrow>
   email_count (query_SourceIPIndex (table w) source_ip (utcnow_58 e - one_hour)) email < 5 \<Longrightarrow>
   content_hash e email message = Inl err \<Longrightarrow>
   process e name email message source_ip w =
     (Inl err,
      w\<lparr>calls := calls w @ [Query_SourceIPIndex source_ip (utcnow_58 e - one_hour)]\<rparr>)"
  by (simp add: process_past_limits)

lemma process_duplicate:
  "name \<noteq> [] \<Longrightarrow> email \<noteq> [] \<Longrightarrow> message \<noteq> [] \<Longrightarrow> \<not> query_ip_raises e \<Longrightarrow>
   length (query_SourceIPIndex (table w) source_ip (utcnow_58 e - one_hour)) < 10 \<Longrightarrow>
   email_count (query_SourceIPIndex (table w) source_ip (utcnow_58 e - one_hour)) email < 5 \<Longrightarrow>
   content_hash e email message = Inr digest \<Longrightarrow>
   \<not> query_hash_raises e \<Longrightarrow>
   query_ContentHashIndex (table w) digest (utcnow_90 e - five_minutes) \<noteq> [] \<Longrightarrow>
   process e name email message source_ip w =
     (Inr (error_response 429 ''Duplicate submission detected. Please wait a few minutes.''),
      w\<lparr>calls := calls w @
           [Query_SourceIPIndex source_ip (utcnow_58 e - one_hour),
            Query_ContentHashIndex digest (utcnow_90 e - five_minutes)]\<rparr>)"
  by (simp add: process_past_limits table_query_hash_def)

lemma process_accept:
  "name \<noteq> [] \<Longrightarrow> email \<noteq> [] \<Longrightarrow> message \<noteq> [] \<Longrightarrow> \<not> query_ip_raises e \<Longrightarrow>
   length (query_SourceIPIndex (table w) source_ip (utcnow_58 e - one_hour)) < 10 \<Longrightarrow>
   email_count (query_SourceIPIndex (table w) source_ip (utcnow_58 e - one_hour)) email < 5 \<Longrightarrow>
   content_hash e email message = Inr digest \<Longrightarrow>
   \<not> query_hash_raises e \<Longrightarrow>
   query_ContentHashIndex (table w) digest (utcnow_90 e - five_minutes) = [] \<Longrightarrow>
   \<not> put_item_raises e \<Longrightarrow>
   process e name email message source_ip w =
     (Inr (success_response (\<not> send_email_raises e)),
      \<lparr>table = table w @ [new_item e name email message digest source_ip],
       calls = calls w @
           [Query_SourceIPIndex source_ip (utcnow_58 e - one_hour),
            Query_ContentHashIndex digest (utcnow_90 e - five_minutes),
            Put_Item (new_item e name email message digest source_ip),
            Send_Email SENDER_EMAIL (mail_subject name) (mail_text name email message)]\<rparr>)"
  by (simp add: process_past_limits table_query_hash_def table_put_item_def
      ses_send_email_def)

lemma process_put_fault:
  "name \<noteq> [] \<Longrightarrow> email \<noteq> [] \<Longrightarrow> message \<noteq> [] \<Longrightarrow> \<not> query_ip_raises e \<Longrightarrow>
   length (query_SourceIPIndex (table w) source_ip (utcnow_58 e - one_hour)) < 10 \<Longrightarrow>
   email_count (query_SourceIPIndex (table w) source_ip (utcnow_58 e - one_hour)) email < 5 \<Longrightarrow>
   content_hash e email message = Inr digest \<Longrightarrow>
   \<not> query_hash_raises e \<Longrightarrow>
   query_ContentHashIndex (table w) digest (utcnow_90 e - five_minutes) = [] \<Longrightarrow>
   put_item_raises e \<Longrightarrow>
   process e name email message source_ip w =
     (Inl ClientError,
      w\<lparr>calls := calls w @
           [Query_SourceIPIndex source_ip (utcnow_58 e - one_hour),
            Query_ContentHashIndex digest (utcnow_90 e - five_minutes),
            Put_Item (new_item e name email message digest source_ip)]\<rparr>)"
  by (simp add: process_past_limits table_query_hash_def table_put_item_def)

text \<open>Every way through \<^const>\<open>process\<close>: the table is left as it was, or one item is added.\<close>

lemma process_outcomes:
  "process e name email message source_ip w = (res, w') \<Longrightarrow>
   (table w' = table w \<and> (\<forall>r. res = Inr r \<longrightarrow> statusCode r \<noteq> 200))
   \<or> (\<exists>digest. content_hash e email message = Inr digest
      \<and> table w' = table w @ [new_item e name email message digest source_ip]
      \<and> res = Inr (success_response (\<not> send_email_raises e))
      \<and> name \<noteq> [] \<and> email \<noteq> [] \<and> message \<noteq> []
      \<and> Put_Item (new_item e name email message digest source_ip) \<in> set (calls w'))"
  by (cases "content_hash e email message")
    (auto simp: process_def table_query_ip_def table_query_hash_def table_put_item_def
      ses_send_email_def error_response_def Let_def
      split: if_splits)

lemma read_request_parts:
  "parse_body e event = Inr b \<Longrightarrow> get_stripped b ''name'' = Inr name \<Longrightarrow>
   get_stripped b ''email'' = Inr email \<Longrightarrow> get_stripped b ''message'' = Inr message \<Longrightarrow>
   get_source_ip event = Inr source_ip \<Longrightarrow>
   read_request e event = Inr (name, py_lower email, message, source_ip)"
  by (simp add: read_request_def and_then_def)

lemma py_lower_Nil: "py_lower s = [] \<longleftrightarrow> s = []"
  by (simp add: py_lower_def)



text \<open>
  Claim C1, as amended. For every request that is read without an exception and whose
  trimmed name, email and message are all non-empty, if the query on the origin index
  returns and the table holds at least 10 items with the derived origin address and a
  timestamp strictly after the reading of the clock at line 58 minus one hour, the
  handler answers 429 with the message \<^verbatim>\<open>Too many submissions. Please try again later.\<close>;
  the only call made is that one query, and the table is as it was.
\<close>

theorem C1_origin_rate_limit:
  assumes "read_request e event = Inr (name, email, message, source_ip)"
    and "name \<noteq> []" and "email \<noteq> []" and "message \<noteq> []"
    and "\<not> query_ip_raises e"
    and "10 \<le> length (query_SourceIPIndex (table w) source_ip (utcnow_58 e - one_hour))"
  shows "lambda_handler e event w =
           (error_response 429 ''Too many submissions. Please try again later.'',
            w\<lparr>calls := calls w @ [Query_SourceIPIndex source_ip (utcnow_58 e - one_hour)]\<rparr>)"
  using assms by (simp add: handler_read process_ip_limit)

text \<open>The amended statement at a request from an address that has ten items of the last hour.\<close>

theorem C1_witness:
  "read_request demo_env (demo_event ''Ann'' ''Ann@Example.org '' ''hi'' ''203.0.113.7'')
     = Inr (''Ann'', ''ann@example.org'', ''hi'', JStr ''203.0.113.7'')
   \<and> \<not> query_ip_raises demo_env
   \<and> 10 \<le> length (query_SourceIPIndex (table busy_world) (JStr ''203.0.113.7'')
                  (utcnow_58 demo_env - one_hour))
   \<and> lambda_handler demo_env (demo_event ''Ann'' ''Ann@Example.org '' ''hi'' ''203.0.113.7'')
        busy_world
      = (error_response 429 ''Too many submissions. Please try again later.'',
         busy_world\<lparr>calls := calls busy_world @
            [Query_SourceIPIndex (JStr ''203.0.113.7'') (utcnow_58 demo_env - one_hour)]\<rparr>)"
proof -
  have r: "read_request demo_env (demo_event ''Ann'' ''Ann@Example.org '' ''hi'' ''203.0.113.7'')
     = Inr (''Ann'', ''ann@example.org'', ''hi'', JStr ''203.0.113.7'')"
    by code_simp
  have q: "\<not> query_ip_raises demo_env"
    by code_simp
  have n: "10 \<le> length (query_SourceIPIndex (table busy_world) (JStr ''203.0.113.7'')
                  (utcnow_58 demo_env - one_hour))"
    by code_simp
  show ?thesis
    using r q n C1_origin_rate_limit [OF r _ _ _ q n] by simp
qed

text \<open>
  The claim as worded fails: the validation comes first, so from the same address a
  request with an empty name is answered 400 and not 429.
\<close>

theorem C1_counterexample:
  "get_source_ip (demo_event [] ''ann@example.org'' ''hi'' ''203.0.113.7'')
     = Inr (JStr ''203.0.113.7'')
   \<and> 10 \<le> length (query_SourceIPIndex (table busy_world) (JStr ''203.0.113.7'')
                  (utcnow_58 demo_env - one_hour))
   \<and> lambda_handler demo_env (demo_event [] ''ann@example.org'' ''hi'' ''203.0.113.7'')
        busy_world
      = (error_response 400 ''Missing required fields'', busy_world)
   \<and> statusCode (error_response 400 ''Missing required fields'') \<noteq> 429"
  by code_simp




text \<open>
  Claim C4, as amended. For every request whose body is read as a mapping in which each
  of name, email and message is absent or a string, and whose origin address is
  derived without an exception: if the name, the email or the message is missing or
  empty after trimming, the handler answers 400 with the message
  \<^verbatim>\<open>Missing required fields\<close>, and it makes no call to the table or the mail service
  (the world is returned as it was).
\<close>

theorem C4_missing_fields:
  assumes "parse_body e event = Inr b"
    and "get_stripped b ''name'' = Inr name"
    and "get_stripped b ''email'' = Inr email"
    and "get_stripped b ''message'' = Inr message"
    and "get_source_ip event = Inr source_ip"
    and "name = [] \<or> email = [] \<or> message = []"
  shows "lambda_handler e event w = (error_response 400 ''Missing required fields'', w)"
  using assms
  by (simp add: handler_read [OF read_request_parts [OF assms(1-5)]] process_missing
      py_lower_Nil)

text \<open>The amended statement at a request whose name is two blanks, against a full table.\<close>

theorem C4_witness:
  "parse_body demo_env (demo_event ''  '' ''ann@example.org'' ''hi'' ''203.0.113.7'')
     = Inr (JObj [(''name'', JStr ''  ''), (''email'', JStr ''ann@example.org''),
                  (''message'', JStr ''hi'')])
   \<and> get_stripped (JObj [(''name'', JStr ''  ''), (''email'', JStr ''ann@example.org''),
                  (''message'', JStr ''hi'')]) ''name'' = Inr []
   \<and> get_stripped (JObj [(''name'', JStr ''  ''), (''email'', JStr ''ann@example.org''),
                  (''message'', JStr ''hi'')]) ''email'' = Inr ''ann@example.org''
   \<and> get_stripped (JObj [(''name'', JStr ''  ''), (''email'', JStr ''ann@example.org''),
                  (''message'', JStr ''hi'')]) ''message'' = Inr ''hi''
   \<and> get_source_ip (demo_event ''  '' ''ann@example.org'' ''hi'' ''203.0.113.7'')
       = Inr (JStr ''203.0.113.7'')
   \<and> lambda_handler demo_env (demo_event ''  '' ''ann@example.org'' ''hi'' ''203.0.113.7'')
        busy_world
      = (error_response 400 ''Missing required fields'', busy_world)"
proof -
  let ?b = "JObj [(''name'', JStr ''  ''), (''email'', JStr ''ann@example.org''),
                  (''message'', JStr ''hi'')]"
  let ?ev = "demo_event ''  '' ''ann@example.org'' ''hi'' ''203.0.113.7''"
  have p: "parse_body demo_env ?ev = Inr ?b"
    by code_simp
  have n: "get_stripped ?b ''name'' = Inr []"
    by code_simp
  have m: "get_stripped ?b ''email'' = Inr ''ann@example.org''"
    by code_simp
  have t: "get_stripped ?b ''message'' = Inr ''hi''"
    by code_simp
  have i: "get_source_ip ?ev = Inr (JStr ''203.0.113.7'')"
    by code_simp
  show ?thesis
    using p n m t i C4_missing_fields [OF p n m t i, of busy_world] by simp
qed

text \<open>
  The claim as worded fails: with the name missing and the email bound to a number,
  line 46 raises before the validation and the answer is 500.
\<close>

theorem C4_counterexample:
  "parse_body demo_env numeric_email_event
     = Inr (JObj [(''email'', JInt 5), (''message'', JStr ''hi'')])
   \<and> get_stripped (JObj [(''email'', JInt 5), (''message'', JStr ''hi'')]) ''name'' = Inr []
   \<and> lambda_handler demo_env numeric_email_event empty_world
      = (error_response 500 ''Internal server error'', empty_world)
   \<and> statusCode (error_response 500 ''Internal server error'') \<noteq> 400"
  by code_simp

subsection \<open>Acceptance\<close>

lemma success_status: "statusCode (success_response b) = 200"
  by (simp add: success_response_def)

lemma success_body:
  "body (success_response (\<not> raises)) =
     json_dumps (JObj [(''status'', JStr ''success''),
       (''message'', JStr (if raises then ''Message received!'' else ''Message sent!''))])"
  by (simp add: success_response_def)

lemma parse_body_mapping:
  "dict_get event ''body'' JNull = Inr (JObj members) \<Longrightarrow>
   parse_body e event = Inr (JObj members)"
  by (cases event)
    (auto simp: parse_body_def dict_get_def and_then_def split: option.splits)

lemma parse_body_string:
  "dict_get event ''body'' JNull = Inr (JStr s) \<Longrightarrow> json_loads e s = Some b \<Longrightarrow>
   parse_body e event = Inr b"
  by (simp add: parse_body_def and_then_def)

text \<open>
  Claim C5, as amended. For every request whose body is JSON text that decodes to a
  mapping, or is a mapping already, with string fields whose trimmed name, email and
  message are non-empty, that passes the origin limit, the email limit and the
  duplicate check, whose hashed text encodes, and whose write to the table returns:
  exactly one item is added to the table and exactly one \<^verbatim>\<open>put_item\<close> is made; the
  item holds the identifier drawn from \<^verbatim>\<open>uuid4\<close>, the reading of the clock at line 113,
  the trimmed name, the trimmed lower-cased email, the trimmed message, the digest of
  the email followed by the lower-cased message, and the derived origin address; the
  identifiers of the table stay distinct when the identifier drawn is not in the
  table already (the code does not test it); and the answer is 200 with status
  \<^verbatim>\<open>success\<close>.
\<close>

theorem C5_accepted_record:
  assumes "dict_get event ''body'' JNull = Inr raw"
    and "(\<exists>s. raw = JStr s \<and> json_loads e s = Some b) \<or> (raw = b \<and> is_mapping b)"
    and "get_stripped b ''name'' = Inr name"
    and "get_stripped b ''email'' = Inr email"
    and "get_stripped b ''message'' = Inr message"
    and "get_source_ip event = Inr source_ip"
    and "name \<noteq> []" and "email \<noteq> []" and "message \<noteq> []"
    and "\<not> query_ip_raises e"
    and "length (query_SourceIPIndex (table w) source_ip (utcnow_58 e - one_hour)) < 10"
    and "email_count (query_SourceIPIndex (table w) source_ip (utcnow_58 e - one_hour))
           (py_lower email) < 5"
    and "md5_hexdigest e (py_lower email @ py_lower message) = Some digest"
    and "\<not> query_hash_raises e"
    and "query_ContentHashIndex (table w) digest (utcnow_90 e - five_minutes) = []"
    and "\<not> put_item_raises e"
  shows "table (snd (lambda_handler e event w)) =
           table w @ [\<lparr>MessageId = uuid4 e, Timestamp = utcnow_113 e, Name = name,
                       Email = py_lower email, Message = message,
                       ContentHash = digest, SourceIP = source_ip\<rparr>]
       \<and> length (filter (\<lambda>c. \<exists>it. c = Put_Item it)
                 (drop (length (calls w)) (calls (snd (lambda_handler e event w))))) = 1
       \<and> (uuid4 e \<notin> MessageId ` set (table w) \<and> distinct (map MessageId (table w))
            \<longrightarrow> distinct (map MessageId (table (snd (lambda_handler e event w)))))
       \<and> statusCode (fst (lambda_handler e event w)) = 200
       \<and> body (fst (lambda_handler e event w)) =
            json_dumps (JObj [(''status'', JStr ''success''),
              (''message'', JStr (if send_email_raises e then ''Message received!''
                                  else ''Message sent!''))])"
proof -
  have p: "parse_body e event = Inr b"
    using assms(2)
  proof
    assume "\<exists>s. raw = JStr s \<and> json_loads e s = Some b"
    then obtain s where "raw = JStr s" and "json_loads e s = Some b"
      by blast
    with assms(1) show ?thesis
      by (simp add: parse_body_string)
  next
    assume m: "raw = b \<and> is_mapping b"
    then obtain members where "b = JObj members"
      by (cases b) simp_all
    with assms(1) m show ?thesis
      by (simp add: parse_body_mapping)
  qed
  have r: "read_request e event = Inr (name, py_lower email, message, source_ip)"
    using p assms(3-6) by (rule read_request_parts)
  have h: "content_hash e (py_lower email) message = Inr digest"
    using assms(13) by (simp add: content_hash_def hash_text_def)
  have "process e name (py_lower email) message source_ip w =
     (Inr (success_response (\<not> send_email_raises e)),
      \<lparr>table = table w @ [new_item e name (py_lower email) message digest source_ip],
       calls = calls w @
           [Query_SourceIPIndex source_ip (utcnow_58 e - one_hour),
            Query_ContentHashIndex digest (utcnow_90 e - five_minutes),
            Put_Item (new_item e name (py_lower email) message digest source_ip),
            Send_Email SENDER_EMAIL (mail_subject name)
              (mail_text name (py_lower email) message)]\<rparr>)"
    using assms(7-12) h assms(14-16) by (intro process_accept) (simp_all add: py_lower_Nil)
  then show ?thesis
    by (simp add: handler_read [OF r] success_status success_body new_item_def
        del: json_dumps.simps)
qed

text \<open>
  The amended statement at the request that arrives as JSON text, decoded by the
  surrounding, against the table of two items; and at a request whose body is a
  mapping already, against the empty table.
\<close>

theorem C5_witness:
  "dict_get string_body_event ''body'' JNull = Inr (JStr request_text)
   \<and> json_loads decoding_env request_text = Some (JObj request_members)
   \<and> get_stripped (JObj request_members) ''name'' = Inr ''Ann''
   \<and> get_stripped (JObj request_members) ''email'' = Inr ''Ann@Example.ORG''
   \<and> get_stripped (JObj request_members) ''message'' = Inr ''Hello there''
   \<and> get_source_ip string_body_event = Inr (JStr ''203.0.113.7'')
   \<and> md5_hexdigest decoding_env (py_lower ''Ann@Example.ORG'' @ py_lower ''Hello there'')
       = Some ''ann@example.orghello there''
   \<and> uuid4 decoding_env \<notin> MessageId ` set (table stored_world)
   \<and> distinct (map MessageId (table stored_world))
   \<and> table (snd (lambda_handler decoding_env string_body_event stored_world))
      = table stored_world @
          [\<lparr>MessageId = ''0f8fad5b-d9cb-469f-a165-70867728950e'', Timestamp = 7200000002,
            Name = ''Ann'', Email = ''ann@example.org'', Message = ''Hello there'',
            ContentHash = ''ann@example.orghello there'',
            SourceIP = JStr ''203.0.113.7''\<rparr>]
   \<and> distinct (map MessageId
        (table (snd (lambda_handler decoding_env string_body_event stored_world))))
   \<and> statusCode (fst (lambda_handler decoding_env string_body_event stored_world)) = 200
   \<and> dict_get (demo_event ''Ann'' ''ann@example.org'' ''hi'' ''203.0.113.7'') ''body'' JNull
       = Inr (JObj [(''name'', JStr ''Ann''), (''email'', JStr ''ann@example.org''),
                    (''message'', JStr ''hi'')])
   \<and> table (snd (lambda_handler demo_env
        (demo_event ''Ann'' ''ann@example.org'' ''hi'' ''203.0.113.7'') empty_world))
      = [\<lparr>MessageId = ''0f8fad5b-d9cb-469f-a165-70867728950e'', Timestamp = 7200000002,
           Name = ''Ann'', Email = ''ann@example.org'', Message = ''hi'',
           ContentHash = ''ann@example.orghi'', SourceIP = JStr ''203.0.113.7''\<rparr>]"
proof -
  let ?b = "JObj request_members"
  have raw: "dict_get string_body_event ''body'' JNull = Inr (JStr request_text)"
    by (simp add: string_body_event_def dict_get_def)
  have dec: "json_loads decoding_env request_text = Some ?b"
    by (simp add: decoding_env_def)
  have src: "(\<exists>s. JStr request_text = JStr s \<and> json_loads decoding_env s = Some ?b)
      \<or> (JStr request_text = ?b \<and> is_mapping ?b)"
    using dec by blast
  have n: "get_stripped ?b ''name'' = Inr ''Ann''"
    by code_simp
  have m: "get_stripped ?b ''email'' = Inr ''Ann@Example.ORG''"
    by code_simp
  have t: "get_stripped ?b ''message'' = Inr ''Hello there''"
    by code_simp
  have i: "get_source_ip string_body_event = Inr (JStr ''203.0.113.7'')"
    by code_simp
  have q1: "\<not> query_ip_raises decoding_env" and q2: "\<not> query_hash_raises decoding_env"
    and q3: "\<not> put_item_raises decoding_env"
    by code_simp+
  have l: "length (query_SourceIPIndex (table stored_world) (JStr ''203.0.113.7'')
             (utcnow_58 decoding_env - one_hour)) < 10"
    by code_simp
  have c: "email_count (query_SourceIPIndex (table stored_world) (JStr ''203.0.113.7'')
             (utcnow_58 decoding_env - one_hour)) (py_lower ''Ann@Example.ORG'') < 5"
    by code_simp
  have g: "md5_hexdigest decoding_env (py_lower ''Ann@Example.ORG'' @ py_lower ''Hello there'')
       = Some ''ann@example.orghello there''"
    by code_simp
  have d: "query_ContentHashIndex (table stored_world) ''ann@example.orghello there''
             (utcnow_90 decoding_env - five_minutes) = []"
    by code_simp
  have u: "uuid4 decoding_env \<notin> MessageId ` set (table stored_world)"
    "distinct (map MessageId (table stored_world))"
    by code_simp+
  have v: "uuid4 decoding_env = ''0f8fad5b-d9cb-469f-a165-70867728950e''"
    "utcnow_113 decoding_env = 7200000002"
    "py_lower ''Ann@Example.ORG'' = ''ann@example.org''"
    by code_simp+
  let ?ev = "demo_event ''Ann'' ''ann@example.org'' ''hi'' ''203.0.113.7''"
  let ?b' = "JObj [(''name'', JStr ''Ann''), (''email'', JStr ''ann@example.org''),
                    (''message'', JStr ''hi'')]"
  have raw': "dict_get ?ev ''body'' JNull = Inr ?b'"
    by code_simp
  have src': "(\<exists>s. ?b' = JStr s \<and> json_loads demo_env s = Some ?b') \<or> (?b' = ?b' \<and> is_mapping ?b')"
    by simp
  have n': "get_stripped ?b' ''name'' = Inr ''Ann''"
    and m': "get_stripped ?b' ''email'' = Inr ''ann@example.org''"
    and t': "get_stripped ?b' ''message'' = Inr ''hi''"
    and i': "get_source_ip ?ev = Inr (JStr ''203.0.113.7'')"
    by code_simp+
  have e1: "\<not> query_ip_raises demo_env" and e2: "\<not> query_hash_raises demo_env"
    and e3: "\<not> put_item_raises demo_env"
    by code_simp+
  have l': "length (query_SourceIPIndex (table empty_world) (JStr ''203.0.113.7'')
             (utcnow_58 demo_env - one_hour)) < 10"
    and c': "email_count (query_SourceIPIndex (table empty_world) (JStr ''203.0.113.7'')
             (utcnow_58 demo_env - one_hour)) (py_lower ''ann@example.org'') < 5"
    and g': "md5_hexdigest demo_env (py_lower ''ann@example.org'' @ py_lower ''hi'')
       = Some ''ann@example.orghi''"
    and d': "query_ContentHashIndex (table empty_world) ''ann@example.orghi''
             (utcnow_90 demo_env - five_minutes) = []"
    by code_simp+
  have v': "uuid4 demo_env = ''0f8fad5b-d9cb-469f-a165-70867728950e''"
    "utcnow_113 demo_env = 7200000002" "table empty_world = []"
    "py_lower ''ann@example.org'' = ''ann@example.org''"
    by code_simp+
  note first = C5_accepted_record [OF raw src n m t i _ _ _ q1 l c g q2 d q3]
  note second = C5_accepted_record [OF raw' src' n' m' t' i' _ _ _ e1 l' c' g' e2 d' e3]
  have a: "table (snd (lambda_handler decoding_env string_body_event stored_world))
      = table stored_world @
          [\<lparr>MessageId = ''0f8fad5b-d9cb-469f-a165-70867728950e'', Timestamp = 7200000002,
            Name = ''Ann'', Email = ''ann@example.org'', Message = ''Hello there'',
            ContentHash = ''ann@example.orghello there'',
            SourceIP = JStr ''203.0.113.7''\<rparr>]"
    and b: "distinct (map MessageId
        (table (snd (lambda_handler decoding_env string_body_event stored_world))))"
    and s: "statusCode (fst (lambda_handler decoding_env string_body_event stored_world)) = 200"
    using first u v by simp_all
  have a': "table (snd (lambda_handler demo_env ?ev empty_world))
      = [\<lparr>MessageId = ''0f8fad5b-d9cb-469f-a165-70867728950e'', Timestamp = 7200000002,
           Name = ''Ann'', Email = ''ann@example.org'', Message = ''hi'',
           ContentHash = ''ann@example.orghi'', SourceIP = JStr ''203.0.113.7''\<rparr>]"
    using second v' by simp
  from raw dec n m t i g u a b s raw' a' show ?thesis
    by (intro conjI)
qed

text \<open>
  The claim as worded fails in three ways, each on a request with three non-empty
  string fields that passes the two limits and the duplicate check against the table
  of two items. When \<^verbatim>\<open>put_item\<close> raises, the answer is 500 and nothing is written. When
  the encoding of the hashed text raises, the answer is 500 after the first query and
  nothing is written. And when \<^verbatim>\<open>uuid4\<close> draws an identifier that is in the table, the
  item is written with it and the answer is 200: the identifier is not unique.
\<close>

theorem C5_counterexample:
  "read_request demo_env (demo_event ''Ann'' ''ann@example.org'' ''hi'' ''203.0.113.7'')
     = Inr (''Ann'', ''ann@example.org'', ''hi'', JStr ''203.0.113.7'')
   \<and> length (query_SourceIPIndex (table stored_world) (JStr ''203.0.113.7'')
             (utcnow_58 demo_env - one_hour)) < 10
   \<and> email_count (query_SourceIPIndex (table stored_world) (JStr ''203.0.113.7'')
             (utcnow_58 demo_env - one_hour)) ''ann@example.org'' < 5
   \<and> query_ContentHashIndex (table stored_world) ''ann@example.orghi''
             (utcnow_90 demo_env - five_minutes) = []
   \<and> statusCode (fst (lambda_handler (demo_env\<lparr>put_item_raises := True\<rparr>)
        (demo_event ''Ann'' ''ann@example.org'' ''hi'' ''203.0.113.7'') stored_world)) = 500
   \<and> table (snd (lambda_handler (demo_env\<lparr>put_item_raises := True\<rparr>)
        (demo_event ''Ann'' ''ann@example.org'' ''hi'' ''203.0.113.7'') stored_world))
      = table stored_world
   \<and> lambda_handler (demo_env\<lparr>md5_hexdigest := (\<lambda>s. None)\<rparr>)
        (demo_event ''Ann'' ''ann@example.org'' ''hi'' ''203.0.113.7'') stored_world
      = (error_response 500 ''Internal server error'',
         stored_world\<lparr>calls :=
           [Query_SourceIPIndex (JStr ''203.0.113.7'') (utcnow_58 demo_env - one_hour)]\<rparr>)
   \<and> statusCode (fst (lambda_handler
        (demo_env\<lparr>uuid4 := ''7c9e6679-7425-40de-944b-e07fc1f90ae7''\<rparr>)
        (demo_event ''Ann'' ''ann@example.org'' ''hi'' ''203.0.113.7'') stored_world)) = 200
   \<and> distinct (map MessageId (table stored_world))
   \<and> \<not> distinct (map MessageId (table (snd (lambda_handler
        (demo_env\<lparr>uuid4 := ''7c9e6679-7425-40de-944b-e07fc1f90ae7''\<rparr>)
        (demo_event ''Ann'' ''ann@example.org'' ''hi'' ''203.0.113.7'') stored_world))))"
  by code_simp

text \<open>
  Claim C6. Whenever a run of the handler has written to the table, the item it wrote
  is the one added at the end of the table, the answer is 200 with status
  \<^verbatim>\<open>success\<close>, and the message is \<^verbatim>\<open>Message received!\<close> when the call to the mail
  service raised and \<^verbatim>\<open>Message sent!\<close> when it returned.
\<close>

theorem C6_notification_failure:
  assumes "table (snd (lambda_handler e event w)) \<noteq> table w"
  shows "(\<exists>it. table (snd (lambda_handler e event w)) = table w @ [it]
             \<and> Put_Item it \<in> set (calls (snd (lambda_handler e event w))))
       \<and> statusCode (fst (lambda_handler e event w)) = 200
       \<and> body (fst (lambda_handler e event w)) =
            json_dumps (JObj [(''status'', JStr ''success''),
              (''message'', JStr (if send_email_raises e then ''Message received!''
                                  else ''Message sent!''))])"
proof (cases "read_request e event")
  case (Inl err)
  with assms show ?thesis
    by (simp add: handler_unread)
next
  case (Inr req)
  obtain name email message source_ip where req: "req = (name, email, message, source_ip)"
    by (cases req) auto
  obtain res w' where pr: "process e name email message source_ip w = (res, w')"
    by (cases "process e name email message source_ip w") auto
  have hd: "lambda_handler e event w =
     (case res of Inl err \<Rightarrow> error_response 500 ''Internal server error'' | Inr r \<Rightarrow> r, w')"
    using Inr req pr by (simp add: handler_read split: sum.splits)
  from process_outcomes [OF pr] show ?thesis
  proof (elim disjE exE conjE)
    assume "table w' = table w"
    with assms hd show ?thesis
      by simp
  next
    fix digest
    assume t: "table w' = table w @ [new_item e name email message digest source_ip]"
      and r: "res = Inr (success_response (\<not> send_email_raises e))"
      and p: "Put_Item (new_item e name email message digest source_ip) \<in> set (calls w')"
    have "lambda_handler e event w = (success_response (\<not> send_email_raises e), w')"
      using hd r by simp
    then show ?thesis
      using t p by (simp add: success_status success_body del: json_dumps.simps)
  qed
qed

text \<open>The statement at the same request with the mail service raising, and with it answering.\<close>

theorem C6_witness:
  "table (snd (lambda_handler (demo_env\<lparr>send_email_raises := True\<rparr>)
          (demo_event ''Ann'' ''ann@example.org'' ''hi'' ''203.0.113.7'') empty_world))
     \<noteq> table empty_world
   \<and> table (snd (lambda_handler (demo_env\<lparr>send_email_raises := True\<rparr>)
          (demo_event ''Ann'' ''ann@example.org'' ''hi'' ''203.0.113.7'') empty_world))
     = [new_item demo_env ''Ann'' ''ann@example.org'' ''hi'' ''ann@example.orghi''
          (JStr ''203.0.113.7'')]
   \<and> statusCode (fst (lambda_handler (demo_env\<lparr>send_email_raises := True\<rparr>)
          (demo_event ''Ann'' ''ann@example.org'' ''hi'' ''203.0.113.7'') empty_world)) = 200
   \<and> body (fst (lambda_handler (demo_env\<lparr>send_email_raises := True\<rparr>)
          (demo_event ''Ann'' ''ann@example.org'' ''hi'' ''203.0.113.7'') empty_world))
     = json_dumps (JObj [(''status'', JStr ''success''), (''message'', JStr ''Message received!'')])
   \<and> table (snd (lambda_handler demo_env
          (demo_event ''Ann'' ''ann@example.org'' ''hi'' ''203.0.113.7'') empty_world))
     \<noteq> table empty_world
   \<and> body (fst (lambda_handler demo_env
          (demo_event ''Ann'' ''ann@example.org'' ''hi'' ''203.0.113.7'') empty_world))
     = json_dumps (JObj [(''status'', JStr ''success''), (''message'', JStr ''Message sent!'')])"
proof -
  let ?ev = "demo_event ''Ann'' ''ann@example.org'' ''hi'' ''203.0.113.7''"
  let ?down = "demo_env\<lparr>send_email_raises := True\<rparr>"
  have a: "table (snd (lambda_handler ?down ?ev empty_world)) \<noteq> table empty_world"
    by code_simp
  have b: "table (snd (lambda_handler demo_env ?ev empty_world)) \<noteq> table empty_world"
    by code_simp
  have c: "table (snd (lambda_handler ?down ?ev empty_world))
     = [new_item demo_env ''Ann'' ''ann@example.org'' ''hi'' ''ann@example.orghi''
          (JStr ''203.0.113.7'')]"
    by code_simp
  have f: "send_email_raises ?down" "\<not> send_email_raises demo_env"
    by code_simp+
  show ?thesis
    using a b c f C6_notification_failure [OF a] C6_notification_failure [OF b]
    by simp
qed

subsection \<open>Exceptions\<close>

lemma handler_status:
  "statusCode (fst (lambda_handler e event w)) \<in> {200, 400, 429, 500}"
proof (cases "read_request e event")
  case (Inl err)
  then show ?thesis
    by (simp add: handler_unread error_response_def)
next
  case (Inr req)
  obtain name email message source_ip where "req = (name, email, message, source_ip)"
    by (cases req) auto
  with Inr show ?thesis
    by (simp add: handler_read process_def table_query_ip_def table_query_hash_def
        table_put_item_def ses_send_email_def error_response_def success_response_def Let_def
        split: sum.splits)
qed

lemma parse_body_garbled:
  "dict_get event ''body'' JNull = Inr (JStr s) \<Longrightarrow> json_loads e s = None \<Longrightarrow>
   parse_body e event = Inl JSONDecodeError"
  by (simp add: parse_body_def and_then_def)

text \<open>
  Claim C7. The handler returns a response on every event, in every surrounding and
  every state of the table. Whenever the body of the \<^verbatim>\<open>try\<close> raises, whatever the
  exception, the response is 500 with the two headers and exactly the body
  \<^verbatim>\<open>json.dumps({'status': 'error', 'message': 'Internal server error'})\<close>, in which
  nothing of the exception appears; a body that is a string and does not decode is
  such a case, and nothing has been called when it is answered; and the status code
  is always one of 200, 400, 429 and 500.
\<close>

theorem C7_no_exception_escapes:
  "(\<forall>err. fst (lambda_handler_try e event w) = Inl err \<longrightarrow>
       fst (lambda_handler e event w) =
         \<lparr>statusCode = 500,
          headers = [(''Content-Type'', ''application/json''),
                     (''Access-Control-Allow-Origin'', ''*'')],
          body = json_dumps (JObj [(''status'', JStr ''error''),
                                   (''message'', JStr ''Internal server error'')])\<rparr>)
   \<and> (dict_get event ''body'' JNull = Inr (JStr s) \<and> json_loads e s = None \<longrightarrow>
       lambda_handler e event w =
         (\<lparr>statusCode = 500,
           headers = [(''Content-Type'', ''application/json''),
                      (''Access-Control-Allow-Origin'', ''*'')],
           body = json_dumps (JObj [(''status'', JStr ''error''),
                                    (''message'', JStr ''Internal server error'')])\<rparr>, w))
   \<and> statusCode (fst (lambda_handler e event w)) \<in> {200, 400, 429, 500}"
proof (intro conjI allI impI)
  fix err
  assume "fst (lambda_handler_try e event w) = Inl err"
  then show "fst (lambda_handler e event w) =
         \<lparr>statusCode = 500,
          headers = [(''Content-Type'', ''application/json''),
                     (''Access-Control-Allow-Origin'', ''*'')],
          body = json_dumps (JObj [(''status'', JStr ''error''),
                                   (''message'', JStr ''Internal server error'')])\<rparr>"
    by (cases "lambda_handler_try e event w")
      (simp add: lambda_handler_def error_response_def cors_headers_def)
next
  assume "dict_get event ''body'' JNull = Inr (JStr s) \<and> json_loads e s = None"
  then have "read_request e event = Inl JSONDecodeError"
    by (simp add: read_request_def and_then_def parse_body_garbled)
  then show "lambda_handler e event w =
         (\<lparr>statusCode = 500,
           headers = [(''Content-Type'', ''application/json''),
                      (''Access-Control-Allow-Origin'', ''*'')],
           body = json_dumps (JObj [(''status'', JStr ''error''),
                                    (''message'', JStr ''Internal server error'')])\<rparr>, w)"
    by (simp add: handler_unread error_response_def cors_headers_def)
next
  show "statusCode (fst (lambda_handler e event w)) \<in> {200, 400, 429, 500}"
    by (rule handler_status)
qed

text \<open>
  The statement at a body that is not JSON, and at a well-formed request when the
  first query to the table raises.
\<close>

theorem C7_witness:
  "dict_get garbled_event ''body'' JNull = Inr (JStr ''{name: Ann'')
   \<and> json_loads demo_env ''{name: Ann'' = None
   \<and> fst (lambda_handler_try demo_env garbled_event empty_world) = Inl JSONDecodeError
   \<and> fst (lambda_handler_try (demo_env\<lparr>query_ip_raises := True\<rparr>)
        (demo_event ''Ann'' ''ann@example.org'' ''hi'' ''203.0.113.7'') empty_world)
      = Inl ClientError
   \<and> lambda_handler demo_env garbled_event empty_world =
       (\<lparr>statusCode = 500,
         headers = [(''Content-Type'', ''application/json''),
                    (''Access-Control-Allow-Origin'', ''*'')],
         body = json_dumps (JObj [(''status'', JStr ''error''),
                                  (''message'', JStr ''Internal server error'')])\<rparr>,
        empty_world)
   \<and> fst (lambda_handler (demo_env\<lparr>query_ip_raises := True\<rparr>)
        (demo_event ''Ann'' ''ann@example.org'' ''hi'' ''203.0.113.7'') empty_world) =
       \<lparr>statusCode = 500,
        headers = [(''Content-Type'', ''application/json''),
                   (''Access-Control-Allow-Origin'', ''*'')],
        body = json_dumps (JObj [(''status'', JStr ''error''),
                                 (''message'', JStr ''Internal server error'')])\<rparr>"
proof -
  have a: "dict_get garbled_event ''body'' JNull = Inr (JStr ''{name: Ann'')"
    by code_simp
  have b: "json_loads demo_env ''{name: Ann'' = None"
    by code_simp
  have c: "fst (lambda_handler_try demo_env garbled_event empty_world) = Inl JSONDecodeError"
    by code_simp
  have d: "fst (lambda_handler_try (demo_env\<lparr>query_ip_raises := True\<rparr>)
        (demo_event ''Ann'' ''ann@example.org'' ''hi'' ''203.0.113.7'') empty_world)
      = Inl ClientError"
    by code_simp
  show ?thesis
    using a b c d
      C7_no_exception_escapes [of demo_env garbled_event empty_world "''{name: Ann''"]
      C7_no_exception_escapes [of "demo_env\<lparr>query_ip_raises := True\<rparr>"
        "demo_event ''Ann'' ''ann@example.org'' ''hi'' ''203.0.113.7''" empty_world "[]"]
    by simp
qed

lemma get_stripped_non_string:
  "map_of members k = Some v \<Longrightarrow> \<not> isinstance_str v \<Longrightarrow>
   get_stripped (JObj members) k = Inl AttributeError"
  by (cases v) (simp_all add: get_stripped_def dict_get_def and_then_def)

text \<open>
  Claim C9. For every request whose body is a mapping already, in which the name, the
  email or the message is present and is not a string (a number, \<^verbatim>\<open>null\<close>, a list, a
  mapping, a truth value), the handler answers 500 with the internal-error body and
  not the 400 of the validation, and nothing has been called.
\<close>

theorem C9_non_string_field:
  assumes "dict_get event ''body'' JNull = Inr (JObj members)"
    and "k \<in> {''name'', ''email'', ''message''}"
    and "map_of members k = Some v"
    and "\<not> isinstance_str v"
  shows "lambda_handler e event w = (error_response 500 ''Internal server error'', w)
       \<and> statusCode (fst (lambda_handler e event w)) = 500
       \<and> fst (lambda_handler e event w) \<noteq> error_response 400 ''Missing required fields''"
proof -
  have p: "parse_body e event = Inr (JObj members)"
    using assms(1) by (rule parse_body_mapping)
  have g: "get_stripped (JObj members) k = Inl AttributeError"
    using assms(3,4) by (rule get_stripped_non_string)
  have "\<exists>err. read_request e event = Inl err"
    using assms(2) g
    by (auto simp: read_request_def and_then_def p split: sum.splits)
  then obtain err where "read_request e event = Inl err" ..
  then have "lambda_handler e event w = (error_response 500 ''Internal server error'', w)"
    by (rule handler_unread)
  then show ?thesis
    by (simp add: error_response_def)
qed

text \<open>The statement at a request whose name is \<^verbatim>\<open>null\<close>.\<close>

theorem C9_witness:
  "dict_get null_name_event ''body'' JNull
     = Inr (JObj [(''name'', JNull), (''email'', JStr ''ann@example.org''),
                  (''message'', JStr ''hi'')])
   \<and> map_of [(''name'', JNull), (''email'', JStr ''ann@example.org''),
             (''message'', JStr ''hi'')] ''name'' = Some JNull
   \<and> \<not> isinstance_str JNull
   \<and> lambda_handler demo_env null_name_event empty_world
      = (error_response 500 ''Internal server error'', empty_world)
   \<and> statusCode (fst (lambda_handler demo_env null_name_event empty_world)) = 500"
proof -
  have a: "dict_get null_name_event ''body'' JNull
     = Inr (JObj [(''name'', JNull), (''email'', JStr ''ann@example.org''),
                  (''message'', JStr ''hi'')])"
    by code_simp
  have b: "map_of [(''name'', JNull), (''email'', JStr ''ann@example.org''),
             (''message'', JStr ''hi'')] ''name'' = Some JNull"
    by simp
  have c: "\<not> isinstance_str JNull"
    by simp
  show ?thesis
    using a b c C9_non_string_field [OF a _ b c, of demo_env empty_world]
    by (simp add: error_response_def)
qed

subsection \<open>Duplicates\<close>

lemma accepted_item:
  assumes "read_request e event = Inr (name, email, message, source_ip)"
    and "statusCode (fst (lambda_handler e event w)) = 200"
  shows "\<exists>digest. content_hash e email message = Inr digest
           \<and> table (snd (lambda_handler e event w)) =
               table w @ [new_item e name email message digest source_ip]
           \<and> name \<noteq> [] \<and> email \<noteq> [] \<and> message \<noteq> []"
proof -
  obtain res w' where pr: "process e name email message source_ip w = (res, w')"
    by (cases "process e name email message source_ip w") auto
  have hd: "lambda_handler e event w =
     (case res of Inl err \<Rightarrow> error_response 500 ''Internal server error'' | Inr r \<Rightarrow> r, w')"
    using assms(1) pr by (simp add: handler_read split: sum.splits)
  from process_outcomes [OF pr] show ?thesis
  proof (elim disjE exE conjE)
    assume "\<forall>r. res = Inr r \<longrightarrow> statusCode r \<noteq> 200"
    with assms(2) hd show ?thesis
      by (cases res) (simp_all add: error_response_def)
  next
    fix digest
    assume "content_hash e email message = Inr digest"
      and "table w' = table w @ [new_item e name email message digest source_ip]"
      and "name \<noteq> []" and "email \<noteq> []" and "message \<noteq> []"
    with hd show ?thesis
      by simp
  qed
qed

lemma query_hash_finds:
  "it \<in> set tbl \<Longrightarrow> ContentHash it = h \<Longrightarrow> t < Timestamp it \<Longrightarrow>
   query_ContentHashIndex tbl h t \<noteq> []"
  by (auto simp: query_ContentHashIndex_def filter_empty_conv)

lemma hash_text_lower:
  "py_lower m = py_lower m' \<Longrightarrow> content_hash e email m = content_hash e email m'"
  by (simp add: content_hash_def hash_text_def)

lemma hash_text_changes:
  "py_lower m \<noteq> py_lower m' \<Longrightarrow> hash_text email m \<noteq> hash_text email m'"
  by (simp add: hash_text_def)

text \<open>
  Claim C3, as amended. Take two submissions with the same lower-cased email and the
  same lower-cased message, the first accepted (answered 200) with the clock of line
  113 strictly after the second's clock of line 90 minus five minutes, its item still
  in the table, and the same digest function in both runs. If the second is read
  without an exception, has a non-empty name, its two queries return, and it passes
  the origin limit and the email limit, then it is answered 429 with the message
  \<^verbatim>\<open>Duplicate submission detected. Please wait a few minutes.\<close> after exactly the two
  queries, and nothing is written. The fingerprint is the digest of the email
  followed by the lower-cased message: two messages that differ in case only have
  the same fingerprint, and two messages that differ after lower-casing give
  different texts to the digest.
\<close>

theorem C3_duplicate_rejected:
  assumes "read_request e1 event1 = Inr (name1, email, message1, ip1)"
    and "statusCode (fst (lambda_handler e1 event1 w0)) = 200"
    and "set (table (snd (lambda_handler e1 event1 w0))) \<subseteq> set (table w)"
    and "read_request e2 event2 = Inr (name2, email, message2, ip2)"
    and "py_lower message2 = py_lower message1"
    and "md5_hexdigest e2 = md5_hexdigest e1"
    and "utcnow_90 e2 - five_minutes < utcnow_113 e1"
    and "name2 \<noteq> []"
    and "\<not> query_ip_raises e2" and "\<not> query_hash_raises e2"
    and "length (query_SourceIPIndex (table w) ip2 (utcnow_58 e2 - one_hour)) < 10"
    and "email_count (query_SourceIPIndex (table w) ip2 (utcnow_58 e2 - one_hour)) email < 5"
  shows "(\<exists>digest. content_hash e2 email message2 = Inr digest
           \<and> lambda_handler e2 event2 w =
               (error_response 429
                  ''Duplicate submission detected. Please wait a few minutes.'',
                w\<lparr>calls := calls w @
                     [Query_SourceIPIndex ip2 (utcnow_58 e2 - one_hour),
                      Query_ContentHashIndex digest (utcnow_90 e2 - five_minutes)]\<rparr>))
       \<and> content_hash e2 email message2 = content_hash e1 email message1
       \<and> (\<forall>m m'. py_lower m = py_lower m' \<longrightarrow>
             content_hash e2 email m = content_hash e2 email m')
       \<and> (\<forall>m m'. py_lower m \<noteq> py_lower m' \<longrightarrow> hash_text email m \<noteq> hash_text email m')"
proof -
  from accepted_item [OF assms(1,2)] obtain digest
    where dg: "content_hash e1 email message1 = Inr digest"
      and tb: "table (snd (lambda_handler e1 event1 w0)) =
                 table w0 @ [new_item e1 name1 email message1 digest ip1]"
      and ne: "email \<noteq> []" "message1 \<noteq> []"
    by blast
  let ?it = "new_item e1 name1 email message1 digest ip1"
  have "py_lower message2 \<noteq> []"
    using assms(5) ne(2) by (simp add: py_lower_Nil)
  then have m2: "message2 \<noteq> []"
    by (simp add: py_lower_Nil)
  have same: "content_hash e2 email message2 = content_hash e1 email message1"
    using assms(5,6) by (simp add: content_hash_def hash_text_def)
  have dg2: "content_hash e2 email message2 = Inr digest"
    using same dg by simp
  have "?it \<in> set (table w)"
    using assms(3) tb by auto
  moreover have "ContentHash ?it = digest"
    by (simp add: new_item_def)
  moreover have "utcnow_90 e2 - five_minutes < Timestamp ?it"
    using assms(7) by (simp add: new_item_def)
  ultimately have found: "query_ContentHashIndex (table w) digest
      (utcnow_90 e2 - five_minutes) \<noteq> []"
    by (rule query_hash_finds)
  have rejected: "lambda_handler e2 event2 w =
           (error_response 429 ''Duplicate submission detected. Please wait a few minutes.'',
            w\<lparr>calls := calls w @
                 [Query_SourceIPIndex ip2 (utcnow_58 e2 - one_hour),
                  Query_ContentHashIndex digest (utcnow_90 e2 - five_minutes)]\<rparr>)"
    using assms(8-12) ne(1) m2 found dg2
    by (simp add: handler_read [OF assms(4)] process_duplicate)
  have casing: "\<forall>m m'. py_lower m = py_lower m' \<longrightarrow>
      content_hash e2 email m = content_hash e2 email m'"
    by (intro allI impI) (rule hash_text_lower)
  have content: "\<forall>m m'. py_lower m \<noteq> py_lower m' \<longrightarrow>
      hash_text email m \<noteq> hash_text email m'"
    by (intro allI impI) (rule hash_text_changes)
  from dg2 rejected have "\<exists>digest. content_hash e2 email message2 = Inr digest
           \<and> lambda_handler e2 event2 w =
               (error_response 429
                  ''Duplicate submission detected. Please wait a few minutes.'',
                w\<lparr>calls := calls w @
                     [Query_SourceIPIndex ip2 (utcnow_58 e2 - one_hour),
                      Query_ContentHashIndex digest (utcnow_90 e2 - five_minutes)]\<rparr>)"
    by blast
  with same casing content show ?thesis
    by (intro conjI)
qed

text \<open>
  The amended statement at two submissions from different addresses, the second with
  other capitals in the email and in the message, one hundred seconds after the first.
\<close>

theorem C3_witness:
  "read_request demo_env (demo_event ''Ann'' ''ann@example.org'' ''Hello There'' ''203.0.113.7'')
     = Inr (''Ann'', ''ann@example.org'', ''Hello There'', JStr ''203.0.113.7'')
   \<and> statusCode (fst (lambda_handler demo_env
        (demo_event ''Ann'' ''ann@example.org'' ''Hello There'' ''203.0.113.7'') empty_world)) = 200
   \<and> read_request later_env (demo_event ''A. B.'' '' ANN@example.org'' ''HELLO there'' ''198.51.100.4'')
     = Inr (''A. B.'', ''ann@example.org'', ''HELLO there'', JStr ''198.51.100.4'')
   \<and> py_lower ''HELLO there'' = py_lower ''Hello There''
   \<and> md5_hexdigest later_env = md5_hexdigest demo_env
   \<and> utcnow_90 later_env - five_minutes < utcnow_113 demo_env
   \<and> lambda_handler later_env
        (demo_event ''A. B.'' '' ANN@example.org'' ''HELLO there'' ''198.51.100.4'')
        (snd (lambda_handler demo_env
           (demo_event ''Ann'' ''ann@example.org'' ''Hello There'' ''203.0.113.7'') empty_world))
      = (error_response 429 ''Duplicate submission detected. Please wait a few minutes.'',
         (snd (lambda_handler demo_env
           (demo_event ''Ann'' ''ann@example.org'' ''Hello There'' ''203.0.113.7'') empty_world))
         \<lparr>calls := calls (snd (lambda_handler demo_env
           (demo_event ''Ann'' ''ann@example.org'' ''Hello There'' ''203.0.113.7'') empty_world)) @
            [Query_SourceIPIndex (JStr ''198.51.100.4'') (utcnow_58 later_env - one_hour),
             Query_ContentHashIndex ''ann@example.orghello there''
               (utcnow_90 later_env - five_minutes)]\<rparr>)"
proof -
  let ?ev1 = "demo_event ''Ann'' ''ann@example.org'' ''Hello There'' ''203.0.113.7''"
  let ?ev2 = "demo_event ''A. B.'' '' ANN@example.org'' ''HELLO there'' ''198.51.100.4''"
  let ?w = "snd (lambda_handler demo_env ?ev1 empty_world)"
  have r1: "read_request demo_env ?ev1
     = Inr (''Ann'', ''ann@example.org'', ''Hello There'', JStr ''203.0.113.7'')"
    by code_simp
  have ok: "statusCode (fst (lambda_handler demo_env ?ev1 empty_world)) = 200"
    by code_simp
  have sub: "set (table ?w) \<subseteq> set (table ?w)"
    by simp
  have r2: "read_request later_env ?ev2
     = Inr (''A. B.'', ''ann@example.org'', ''HELLO there'', JStr ''198.51.100.4'')"
    by code_simp
  have lo: "py_lower ''HELLO there'' = py_lower ''Hello There''"
    by code_simp
  have dg: "md5_hexdigest later_env = md5_hexdigest demo_env"
    by (simp add: later_env_def)
  have tm: "utcnow_90 later_env - five_minutes < utcnow_113 demo_env"
    by code_simp
  have q: "\<not> query_ip_raises later_env" "\<not> query_hash_raises later_env"
    by code_simp+
  have l: "length (query_SourceIPIndex (table ?w) (JStr ''198.51.100.4'')
             (utcnow_58 later_env - one_hour)) < 10"
    by code_simp
  have c: "email_count (query_SourceIPIndex (table ?w) (JStr ''198.51.100.4'')
             (utcnow_58 later_env - one_hour)) ''ann@example.org'' < 5"
    by code_simp
  have ch: "content_hash later_env ''ann@example.org'' ''HELLO there''
      = Inr ''ann@example.orghello there''"
    by code_simp
  have nm: "''A. B.'' \<noteq> []"
    by simp
  from C3_duplicate_rejected [OF r1 ok sub r2 lo dg tm nm q l c, THEN conjunct1]
  obtain digest
    where d: "content_hash later_env ''ann@example.org'' ''HELLO there'' = Inr digest"
      and rj: "lambda_handler later_env ?ev2 ?w =
        (error_response 429 ''Duplicate submission detected. Please wait a few minutes.'',
         ?w\<lparr>calls := calls ?w @
            [Query_SourceIPIndex (JStr ''198.51.100.4'') (utcnow_58 later_env - one_hour),
             Query_ContentHashIndex digest (utcnow_90 later_env - five_minutes)]\<rparr>)"
    by blast
  from d ch have "digest = ''ann@example.orghello there''"
    by (simp only: sum.inject)
  with rj have "lambda_handler later_env ?ev2 ?w =
        (error_response 429 ''Duplicate submission detected. Please wait a few minutes.'',
         ?w\<lparr>calls := calls ?w @
            [Query_SourceIPIndex (JStr ''198.51.100.4'') (utcnow_58 later_env - one_hour),
             Query_ContentHashIndex ''ann@example.orghello there''
               (utcnow_90 later_env - five_minutes)]\<rparr>)"
    by (simp only:)
  with r1 ok r2 lo dg tm show ?thesis
    by (intro conjI)
qed

text \<open>
  The claim as worded fails: the two limits come before the duplicate check. After
  four messages of one sender from one address, a fifth is accepted; the same
  message again, in capitals and within five minutes, is answered with the message
  of the email limit and not with the message of the duplicate check.
\<close>

theorem C3_counterexample:
  "statusCode (fst (lambda_handler demo_env
       (demo_event ''Ann'' ''ann@example.org'' ''five'' ''203.0.113.7'') four_world)) = 200
   \<and> utcnow_90 later_env - five_minutes < utcnow_113 demo_env
   \<and> fst (lambda_handler later_env
       (demo_event ''Ann'' ''ann@example.org'' ''FIVE'' ''203.0.113.7'')
       (snd (lambda_handler demo_env
          (demo_event ''Ann'' ''ann@example.org'' ''five'' ''203.0.113.7'') four_world)))
      = error_response 429 ''Too many submissions from this email. Please try again later.''
   \<and> body (error_response 429
             ''Too many submissions from this email. Please try again later.'')
      \<noteq> body (error_response 429
                 ''Duplicate submission detected. Please wait a few minutes.'')"
  by code_simp

subsection \<open>The fingerprint is not injective on the pair\<close>

text \<open>
  Claim C10. The text that is hashed is the email followed at once by the lower-cased
  message, so the submissions (\<^verbatim>\<open>ab\<close>, \<^verbatim>\<open>c\<close>) and (\<^verbatim>\<open>a\<close>, \<^verbatim>\<open>bc\<close>), which differ in the email
  and in the message, have the same fingerprint under every digest function; and
  they are treated as duplicates of each other: whichever of the two is accepted
  first, the other, sent one hundred seconds later by another sender from another
  address, is answered with the message of the duplicate check.
\<close>

theorem C10_concatenation_collision:
  "content_hash e ''ab'' ''c'' = content_hash e ''a'' ''bc''
   \<and> ''ab'' \<noteq> ''a'' \<and> ''c'' \<noteq> ''bc''
   \<and> statusCode (fst (lambda_handler (demo_env\<lparr>md5_hexdigest := (\<lambda>s. Some (h s))\<rparr>)
        (demo_event ''Ann'' ''ab'' ''c'' ''203.0.113.7'') empty_world)) = 200
   \<and> fst (lambda_handler (later_env\<lparr>md5_hexdigest := (\<lambda>s. Some (h s))\<rparr>)
        (demo_event ''Bob'' ''a'' ''bc'' ''198.51.100.4'')
        (snd (lambda_handler (demo_env\<lparr>md5_hexdigest := (\<lambda>s. Some (h s))\<rparr>)
           (demo_event ''Ann'' ''ab'' ''c'' ''203.0.113.7'') empty_world)))
      = error_response 429 ''Duplicate submission detected. Please wait a few minutes.''
   \<and> statusCode (fst (lambda_handler (demo_env\<lparr>md5_hexdigest := (\<lambda>s. Some (h s))\<rparr>)
        (demo_event ''Bob'' ''a'' ''bc'' ''198.51.100.4'') empty_world)) = 200
   \<and> fst (lambda_handler (later_env\<lparr>md5_hexdigest := (\<lambda>s. Some (h s))\<rparr>)
        (demo_event ''Ann'' ''ab'' ''c'' ''203.0.113.7'')
        (snd (lambda_handler (demo_env\<lparr>md5_hexdigest := (\<lambda>s. Some (h s))\<rparr>)
           (demo_event ''Bob'' ''a'' ''bc'' ''198.51.100.4'') empty_world)))
      = error_response 429 ''Duplicate submission detected. Please wait a few minutes.''"
  by code_simp

end
